theory Spec2Isabelle
  imports Complex_Main "HOL-Library.Multiset"
begin

section \<open>Shared Python notions\<close>

text \<open>
  Python floats are modelled by exact rationals: every constant of the source
  (0.4, 0.25, 0.6, ...) is read as the decimal fraction it denotes and arithmetic is
  exact. Exceptions are values of \<open>py_error\<close>; a function that can raise returns
  \<open>py_error + 'a\<close> with \<open>Inl\<close> for the raise.
\<close>

datatype py_error = KeyError | CacheUnavailable | AdapterFailure

text \<open>\<^verbatim>\<open>xs[:n]\<close>: a negative \<open>n\<close> counts from the end.\<close>

definition py_slice_to :: "'a list \<Rightarrow> int \<Rightarrow> 'a list" where
  "py_slice_to xs n =
     (if 0 \<le> n then take (nat n) xs else take (length xs - nat (- n)) xs)"

text \<open>
  \<^verbatim>\<open>sorted(xs, key=k, reverse=True)\<close>: descending by key and stable (items with
  equal keys keep their input order, also under \<^verbatim>\<open>reverse=True\<close>).
\<close>

definition py_sorted_desc :: "('a \<Rightarrow> 'k::linordered_ab_group_add) \<Rightarrow> 'a list \<Rightarrow> 'a list" where
  "py_sorted_desc k xs = sort_key (\<lambda>x. - k x) xs"

text \<open>
  \<^verbatim>\<open>max(d, key=f)\<close> over the keys in iteration order: the first key whose value
  is maximal wins (a later key replaces the best only when strictly greater).
\<close>

fun py_max_key :: "('a \<Rightarrow> rat) \<Rightarrow> 'a \<Rightarrow> 'a list \<Rightarrow> 'a" where
  "py_max_key f best [] = best"
| "py_max_key f best (x # xs) = py_max_key f (if f best < f x then x else best) xs"

text \<open>\<^verbatim>\<open>str.lower()\<close> on ASCII letters; other characters are unchanged.\<close>

definition char_lower :: "char \<Rightarrow> char" where
  "char_lower c =
     (case map_of (zip ''ABCDEFGHIJKLMNOPQRSTUVWXYZ'' ''abcdefghijklmnopqrstuvwxyz'') c of
        Some l \<Rightarrow> l
      | None \<Rightarrow> c)"

definition lower :: "string \<Rightarrow> string" where
  "lower s = map char_lower s"

text \<open>\<^verbatim>\<open>str.strip()\<close>: ASCII white space is removed at both ends.\<close>

definition is_space :: "char \<Rightarrow> bool" where
  "is_space c =
     (c \<in> set [CHR 0x09, CHR 0x0A, CHR 0x0B, CHR 0x0C, CHR 0x0D,
                 CHR 0x1C, CHR 0x1D, CHR 0x1E, CHR 0x1F, CHR 0x20])"

definition strip :: "string \<Rightarrow> string" where
  "strip s = rev (dropWhile is_space (rev (dropWhile is_space s)))"

text \<open>\<^verbatim>\<open>needle in haystack\<close> on strings: a contiguous occurrence.\<close>

fun starts_with :: "string \<Rightarrow> string \<Rightarrow> bool" where
  "starts_with [] s = True"
| "starts_with (p # ps) [] = False"
| "starts_with (p # ps) (c # cs) = (p = c \<and> starts_with ps cs)"

fun str_contains :: "string \<Rightarrow> string \<Rightarrow> bool" where
  "str_contains needle [] = (needle = [])"
| "str_contains needle (c # cs) = (starts_with needle (c # cs) \<or> str_contains needle cs)"

section \<open>Sentiment service (services/sentiment.py)\<close>

subsection \<open>Data\<close>

datatype label = Positive | Negative | Neutral

text \<open>
  What the ensemble reads of an adapter's result dictionary: the keys
  \<^verbatim>\<open>'sentiment'\<close> and \<^verbatim>\<open>'confidence'\<close>. Every adapter of the source
  returns both keys on every path; the label is one of the three keys of
  \<^verbatim>\<open>sentiment_scores\<close>.
\<close>

record model_result =
  sentiment :: label
  confidence :: rat

text \<open>
  The rule-based adapter also returns \<^verbatim>\<open>'keyword_counts'\<close> (the empty
  dictionary when no keyword matched: \<open>None\<close>) and, when a keyword matched,
  \<^verbatim>\<open>'scores'\<close>; both as (positive, negative, neutral).
\<close>

record rule_result = model_result +
  keyword_counts :: "(nat \<times> nat \<times> nat) option"
  scores :: "(rat \<times> rat \<times> rat) option"

datatype adapter = Vader | Finbert | General | Rule_based

text \<open>The \<^verbatim>\<open>results\<close> dictionary, in insertion order.\<close>

type_synonym results = "(adapter \<times> model_result) list"

text \<open>Values of the dictionary that \<^verbatim>\<open>_create_ensemble_result\<close> returns.\<close>

datatype pyval =
  PLabel label
| PNum rat
| PScores "label \<Rightarrow> rat"
| PModels "adapter list"

type_synonym pydict = "(string \<times> pyval) list"

subsection \<open>Keyword lists (\<^verbatim>\<open>_init_financial_keywords\<close>)\<close>

definition positive_keywords :: "string list" where
  "positive_keywords =
     [''profit'', ''gain'', ''growth'', ''bull'', ''rise'', ''increase'', ''positive'',
      ''strong'', ''beat'', ''exceed'', ''outperform'', ''surge'', ''rally'', ''boom'',
      ''bullish'', ''uptrend'', ''breakthrough'', ''milestone'', ''achievement'']"

definition negative_keywords :: "string list" where
  "negative_keywords =
     [''loss'', ''decline'', ''bear'', ''fall'', ''decrease'', ''negative'', ''weak'',
      ''miss'', ''underperform'', ''crash'', ''plunge'', ''recession'', ''bearish'',
      ''downtrend'', ''crisis'', ''risk'', ''concern'', ''worry'', ''trouble'']"

definition neutral_keywords :: "string list" where
  "neutral_keywords =
     [''stable'', ''unchanged'', ''flat'', ''sideways'', ''consolidate'', ''range'',
      ''maintain'', ''steady'', ''consistent'', ''regular'', ''normal'']"

subsection \<open>The rule-based adapter (\<^verbatim>\<open>_analyze_with_rules\<close>)\<close>

text \<open>\<^verbatim>\<open>sum(1 for word in words if word in keywords)\<close>\<close>

definition keyword_count :: "string list \<Rightarrow> string list \<Rightarrow> nat" where
  "keyword_count keywords words = length (filter (\<lambda>word. word \<in> set keywords) words)"

text \<open>
  The tokenizer \<^verbatim>\<open>nltk.word_tokenize\<close> is external: it is the parameter
  \<open>word_tokenize\<close>.
\<close>

definition analyze_with_rules :: "(string \<Rightarrow> string list) \<Rightarrow> string \<Rightarrow> rule_result" where
  "analyze_with_rules word_tokenize text =
     (let text_lower = lower text;
          words = word_tokenize text_lower;
          positive_count = keyword_count positive_keywords words;
          negative_count = keyword_count negative_keywords words;
          neutral_count = keyword_count neutral_keywords words;
          total_sentiment_words = positive_count + negative_count + neutral_count
      in if total_sentiment_words = 0
         then \<lparr>sentiment = Neutral, confidence = 1/2, keyword_counts = None, scores = None\<rparr>
         else
           let pos_score = rat_of_nat positive_count / rat_of_nat total_sentiment_words;
               neg_score = rat_of_nat negative_count / rat_of_nat total_sentiment_words;
               neu_score = rat_of_nat neutral_count / rat_of_nat total_sentiment_words;
               (s, c) =
                 (if neg_score < pos_score \<and> neu_score < pos_score then (Positive, pos_score)
                  else if pos_score < neg_score \<and> neu_score < neg_score then (Negative, neg_score)
                  else (Neutral, max neu_score (1/2)))
           in \<lparr>sentiment = s, confidence = c,
                keyword_counts = Some (positive_count, negative_count, neutral_count),
                scores = Some (pos_score, neg_score, neu_score)\<rparr>)"

subsection \<open>The ensemble (\<^verbatim>\<open>_create_ensemble_result\<close>)\<close>

definition model_order :: "adapter list" where
  "model_order = [Vader, Finbert, General, Rule_based]"

fun weights :: "adapter \<Rightarrow> rat" where
  "weights Finbert = 4/10"
| "weights Vader = 25/100"
| "weights General = 2/10"
| "weights Rule_based = 15/100"

text \<open>The first loop: the sentiments of the models present in \<open>results\<close>.\<close>

fun collect_sentiments :: "results \<Rightarrow> adapter list \<Rightarrow> label list" where
  "collect_sentiments results [] = []"
| "collect_sentiments results (model # models) =
     (case map_of results model of
        None \<Rightarrow> collect_sentiments results models
      | Some r \<Rightarrow> sentiment r # collect_sentiments results models)"

text \<open>
  The second loop, over the state (\<^verbatim>\<open>sentiment_scores\<close>,
  \<^verbatim>\<open>total_weight\<close>).
\<close>

fun accumulate :: "results \<Rightarrow> adapter list \<Rightarrow> (label \<Rightarrow> rat) \<times> rat \<Rightarrow> (label \<Rightarrow> rat) \<times> rat" where
  "accumulate results [] acc = acc"
| "accumulate results (model # models) (sentiment_scores, total_weight) =
     (case map_of results model of
        None \<Rightarrow> accumulate results models (sentiment_scores, total_weight)
      | Some r \<Rightarrow>
          accumulate results models
            (sentiment_scores
               (sentiment r := sentiment_scores (sentiment r) + weights model * confidence r),
             total_weight + weights model))"

definition normalize_scores :: "(label \<Rightarrow> rat) \<Rightarrow> rat \<Rightarrow> label \<Rightarrow> rat" where
  "normalize_scores sentiment_scores total_weight =
     (if 0 < total_weight then (\<lambda>l. sentiment_scores l / total_weight) else sentiment_scores)"

definition create_ensemble_result :: "results \<Rightarrow> pydict" where
  "create_ensemble_result results =
     (if collect_sentiments results model_order = []
      then [(''sentiment'', PLabel Neutral), (''confidence'', PNum (1/2))]
      else
        let (raw_scores, total_weight) = accumulate results model_order (\<lambda>_. 0, 0);
            sentiment_scores = normalize_scores raw_scores total_weight;
            final_sentiment = py_max_key sentiment_scores Positive [Negative, Neutral];
            final_confidence = sentiment_scores final_sentiment
        in [(''sentiment'', PLabel final_sentiment),
            (''confidence'', PNum final_confidence),
            (''scores'', PScores sentiment_scores),
            (''models_used'', PModels (map fst results)),
            (''total_weight'', PNum total_weight)])"

subsection \<open>Chunking (\<^verbatim>\<open>_split_text\<close>)\<close>

text \<open>
  The sentence splitter \<^verbatim>\<open>nltk.sent_tokenize\<close> is external: it is the
  parameter \<open>sent_tokenize\<close>. The loop state is (\<^verbatim>\<open>chunks\<close>,
  \<^verbatim>\<open>current_chunk\<close>).
\<close>

fun split_loop :: "int \<Rightarrow> string list \<Rightarrow> string list \<Rightarrow> string \<Rightarrow> string list \<times> string" where
  "split_loop max_length [] chunks current_chunk = (chunks, current_chunk)"
| "split_loop max_length (sentence # sentences) chunks current_chunk =
     (if int (length (current_chunk @ sentence)) \<le> max_length
      then split_loop max_length sentences chunks
             (if current_chunk \<noteq> [] then current_chunk @ '' '' @ sentence else sentence)
      else split_loop max_length sentences
             (if current_chunk \<noteq> [] then chunks @ [strip current_chunk] else chunks)
             sentence)"

definition split_text :: "(string \<Rightarrow> string list) \<Rightarrow> string \<Rightarrow> int \<Rightarrow> string list" where
  "split_text sent_tokenize text max_length =
     (let sentences = sent_tokenize text;
          (chunks, current_chunk) = split_loop max_length sentences [] [];
          chunks = (if current_chunk \<noteq> [] then chunks @ [strip current_chunk] else chunks)
      in if chunks \<noteq> [] then chunks else [py_slice_to text max_length])"

subsection \<open>The classifier adapters\<close>





subsection \<open>The request (\<^verbatim>\<open>analyze_sentiment\<close>)\<close>

text \<open>
  The external capabilities of a request. A cache call either raises or answers; a
  \<^verbatim>\<open>get\<close> answers \<open>None\<close> on a miss.
\<close>

record analysis =
  model_results :: results
  ensemble :: "pydict option"
  text_length :: nat
  processed_length :: nat
  model_type :: string

record sentiment_env =
  clean_financial_text :: "string \<Rightarrow> string"
  text_hash :: "string \<Rightarrow> string"
  word_tokenize :: "string \<Rightarrow> string list"
  sent_tokenize :: "string \<Rightarrow> string list"
  vader_compound :: "string \<Rightarrow> rat"
  finbert_pipeline :: "string \<Rightarrow> py_error + label \<times> rat"
  general_pipeline :: "string \<Rightarrow> py_error + label \<times> rat"
  redis_get :: "string \<Rightarrow> py_error + analysis option"
  redis_setex :: "string \<Rightarrow> nat \<Rightarrow> analysis \<Rightarrow> py_error + unit"


section \<open>Recommendation service (services/recommendation.py)\<close>

subsection \<open>Data\<close>

text \<open>
  Rows of the relational queries, with the columns the service reads. A column that may
  be NULL is an option. Ages are taken at the time of the call: \<open>created_days_old\<close> is
  \<^verbatim>\<open>(datetime.now() - created_at).days\<close>, \<open>published_hours_old\<close> is
  \<^verbatim>\<open>(datetime.now() - published_at).total_seconds() / 3600\<close>.
\<close>

record user_row =
  user_id :: string
  user_risk_profile :: "string option"

record learning_row =
  l_category :: string
  l_level :: string
  completed_courses :: int
  avg_score :: "rat option"

record trade_row =
  symbol :: string

record course =
  c_id :: string
  c_title :: string
  c_category :: string
  c_level :: string
  avg_rating :: "rat option"
  review_count :: "int option"
  created_days_old :: "int option"
  c_language :: "string option"

record article =
  a_id :: string
  a_title :: string
  a_summary :: string
  a_category :: string
  a_sentiment :: "string option"
  published_hours_old :: "rat option"

text \<open>
  The profile dictionary. The scorers read \<^verbatim>\<open>skill_level\<close>,
  \<^verbatim>\<open>preferred_categories\<close> and \<^verbatim>\<open>interests\<close> with \<^verbatim>\<open>.get\<close> and a
  default, so these keys are options (a cached profile may lack them).
\<close>

record user_profile =
  user_data :: "user_row option"
  learning_progress :: "learning_row list"
  trading_behavior :: "trade_row list"
  interests :: "string list option"
  skill_level :: "string option"
  risk_profile :: "string option"
  preferred_categories :: "string list option"

record preferences =
  preferred_language :: "string option"

text \<open>
  A scored candidate. Ranking reads \<^verbatim>\<open>score\<close> and \<^verbatim>\<open>item_type\<close> only; the
  remaining display fields of the source (description, level, rating, summary,
  sentiment, published_at, reason) are carried along unread and are left out.
\<close>

record candidate =
  item_id :: string
  item_type :: string
  title :: string
  category :: string
  score :: rat

record database =
  db_user :: "user_row option"
  db_learning :: "learning_row list"
  db_trading :: "trade_row list"
  db_courses :: "course list"
  db_news :: "article list"

record rec_cache =
  get_profile :: "string \<Rightarrow> py_error + user_profile option"
  setex_profile :: "string \<Rightarrow> nat \<Rightarrow> user_profile \<Rightarrow> py_error + unit"
  setex_recommendations :: "string \<Rightarrow> nat \<Rightarrow> candidate list \<Rightarrow> py_error + unit"

subsection \<open>Profile (\<^verbatim>\<open>_get_user_profile\<close> and its helpers)\<close>

text \<open>\<^verbatim>\<open>_get_preferred_categories\<close>\<close>

definition get_preferred_categories :: "learning_row list \<Rightarrow> string list" where
  "get_preferred_categories learning_data =
     (if learning_data = [] then []
      else
        let sorted_categories = py_sorted_desc completed_courses learning_data
        in map l_category (py_slice_to sorted_categories 3))"

text \<open>
  \<^verbatim>\<open>_determine_skill_level\<close>. The mean of an empty list of scores is NaN, which
  fails every comparison: \<open>None\<close> here.
\<close>

definition determine_skill_level :: "learning_row list \<Rightarrow> string" where
  "determine_skill_level learning_data =
     (if learning_data = [] then ''beginner''
      else
        let total_courses = sum_list (map completed_courses learning_data);
            given = concat (map (\<lambda>item. case avg_score item of
                                   None \<Rightarrow> [] | Some x \<Rightarrow> if x = 0 then [] else [x])
                            learning_data);
            mean = (if given = [] then None
                    else Some (sum_list given / rat_of_nat (length given)))
        in if 10 \<le> total_courses \<and> (case mean of None \<Rightarrow> False | Some m \<Rightarrow> 80 \<le> m)
           then ''advanced''
           else if 5 \<le> total_courses \<and> (case mean of None \<Rightarrow> False | Some m \<Rightarrow> 70 \<le> m)
           then ''intermediate''
           else ''beginner'')"

text \<open>
  \<^verbatim>\<open>_extract_interests\<close>. The source builds a set and lists it; the order of that
  list is unspecified in Python, and is the order of first insertion here.
\<close>

definition extract_interests :: "learning_row list \<Rightarrow> trade_row list \<Rightarrow> string list" where
  "extract_interests learning_data trading_data =
     rev (remdups (rev
       (map l_category learning_data
        @ concat (map (\<lambda>trade.
                    if starts_with ''BANK'' (symbol trade) then [''banking'']
                    else if starts_with ''IT'' (symbol trade) then [''technology'']
                    else [])
                  trading_data))))"

definition get_user_profile :: "rec_cache \<Rightarrow> database \<Rightarrow> string \<Rightarrow> py_error + user_profile" where
  "get_user_profile cache db uid =
     (let cache_key = ''user_profile:'' @ uid
      in case get_profile cache cache_key of
           Inl e \<Rightarrow> Inl e
         | Inr (Some cached_profile) \<Rightarrow> Inr cached_profile
         | Inr None \<Rightarrow>
             (let profile =
                    \<lparr>user_data = db_user db,
                     learning_progress = db_learning db,
                     trading_behavior = db_trading db,
                     interests = Some (extract_interests (db_learning db) (db_trading db)),
                     skill_level = Some (determine_skill_level (db_learning db)),
                     risk_profile =
                       (case db_user db of
                          None \<Rightarrow> Some ''moderate''
                        | Some u \<Rightarrow> user_risk_profile u),
                     preferred_categories = Some (get_preferred_categories (db_learning db))\<rparr>
              in case setex_profile cache cache_key 3600 profile of
                   Inl e \<Rightarrow> Inl e
                 | Inr _ \<Rightarrow> Inr profile))"

subsection \<open>Scoring (\<^verbatim>\<open>_calculate_course_score\<close>, \<^verbatim>\<open>_calculate_news_score\<close>)\<close>

definition level_mapping :: "string \<Rightarrow> int option" where
  "level_mapping = map_of [(''beginner'', 1), (''intermediate'', 2), (''advanced'', 3)]"

definition calculate_course_score :: "course \<Rightarrow> user_profile \<Rightarrow> preferences \<Rightarrow> rat" where
  "calculate_course_score course profile prefs =
     (let score = 0;
          preferred = (case preferred_categories profile of None \<Rightarrow> [] | Some cs \<Rightarrow> cs);
          score = (if c_category course \<in> set preferred then score + 3/10 else score);
          user_skill_level = (case skill_level profile of None \<Rightarrow> ''beginner'' | Some l \<Rightarrow> l);
          user_level = (case level_mapping user_skill_level of None \<Rightarrow> 1 | Some n \<Rightarrow> n);
          course_level = (case level_mapping (c_level course) of None \<Rightarrow> 1 | Some n \<Rightarrow> n);
          score = (if course_level = user_level then score + 25/100
                   else if course_level = user_level + 1 then score + 15/100
                   else if course_level = user_level - 1 then score + 1/10
                   else score);
          rating = (case avg_rating course of None \<Rightarrow> 0 | Some r \<Rightarrow> r);
          reviews = (case review_count course of None \<Rightarrow> 0 | Some n \<Rightarrow> n);
          score = score + (rating / 5) * (2/10);
          score = score + min (rat_of_int reviews / 100) (1/10);
          score = (case created_days_old course of
                     None \<Rightarrow> score
                   | Some days_old \<Rightarrow>
                       if days_old < 30 then score + 1/10
                       else if days_old < 90 then score + 5/100
                       else score);
          score = (if preferred_language prefs = c_language course then score + 1/10 else score)
      in min score 1)"

definition calculate_news_score :: "article \<Rightarrow> string list \<Rightarrow> rat" where
  "calculate_news_score article user_interests =
     (let article_text = lower (a_title article @ '' '' @ a_summary article);
          score = fold (\<lambda>interest score.
                          if str_contains (lower interest) article_text then score + 3/10
                          else score)
                    user_interests 0;
          score = (if a_category article \<in> set [''stocks'', ''mutual_funds'', ''trading'', ''investment'']
                   then score + 2/10 else score);
          score = (if a_sentiment article = Some ''positive'' then score + 1/10
                   else if a_sentiment article = Some ''neutral'' then score + 5/100
                   else score);
          score = (case published_hours_old article of
                     None \<Rightarrow> score
                   | Some hours_old \<Rightarrow>
                       if hours_old < 24 then score + 2/10
                       else if hours_old < 72 then score + 1/10
                       else score)
      in min score 1)"

subsection \<open>Candidates (\<^verbatim>\<open>_recommend_courses\<close>, \<^verbatim>\<open>_recommend_news\<close>)\<close>

text \<open>
  The course query is parameterised by \<^verbatim>\<open>user_profile["user_data"]["id"]\<close>, which
  raises \<^verbatim>\<open>KeyError\<close> when the profile has no user row.
\<close>

definition recommend_courses ::
  "database \<Rightarrow> user_profile \<Rightarrow> preferences \<Rightarrow> int \<Rightarrow> py_error + candidate list" where
  "recommend_courses db profile prefs limit =
     (case user_data profile of
        None \<Rightarrow> Inl KeyError
      | Some u \<Rightarrow>
          if db_courses db = [] then Inr []
          else
            let course_scores =
                  map (\<lambda>c. \<lparr>item_id = c_id c, item_type = ''course'', title = c_title c,
                            category = c_category c,
                            score = calculate_course_score c profile prefs\<rparr>)
                    (db_courses db)
            in Inr (py_slice_to (py_sorted_desc score course_scores) limit))"

definition recommend_news :: "database \<Rightarrow> user_profile \<Rightarrow> int \<Rightarrow> candidate list" where
  "recommend_news db profile limit =
     (if db_news db = [] then []
      else
        let user_interests = (case interests profile of None \<Rightarrow> [] | Some is \<Rightarrow> is);
            news_scores =
              map (\<lambda>a. \<lparr>item_id = a_id a, item_type = ''news'', title = a_title a,
                        category = a_category a,
                        score = calculate_news_score a user_interests\<rparr>)
                (db_news db)
        in py_slice_to (py_sorted_desc score news_scores) limit)"

subsection \<open>Ranking (\<^verbatim>\<open>_rank_recommendations\<close>)\<close>

text \<open>
  The loop over the sorted list, with the state (\<^verbatim>\<open>final_recommendations\<close>,
  \<^verbatim>\<open>type_counts\<close>). The dictionary \<^verbatim>\<open>type_counts\<close> is only read after
  \<^verbatim>\<open>type_counts[item_type] = type_counts.get(item_type, 0)\<close>: a function that is 0
  at every type not yet counted.
\<close>

fun rank_loop :: "int \<Rightarrow> candidate list \<Rightarrow> candidate list \<Rightarrow> (string \<Rightarrow> nat) \<Rightarrow> candidate list" where
  "rank_loop limit [] final_recommendations type_counts = final_recommendations"
| "rank_loop limit (rec # ranked) final_recommendations type_counts =
     (if int (length final_recommendations) < limit
         \<and> rat_of_nat (type_counts (item_type rec)) < rat_of_int limit * (6/10)
      then rank_loop limit ranked (final_recommendations @ [rec])
             (type_counts(item_type rec := type_counts (item_type rec) + 1))
      else rank_loop limit ranked final_recommendations type_counts)"

definition rank_recommendations :: "candidate list \<Rightarrow> user_profile \<Rightarrow> int \<Rightarrow> candidate list" where
  "rank_recommendations recommendations profile limit =
     (let ranked = py_sorted_desc score recommendations
      in rank_loop limit ranked [] (\<lambda>_. 0))"

subsection \<open>The request (\<^verbatim>\<open>get_recommendations\<close>)\<close>

text \<open>\<^verbatim>\<open>_cache_recommendations\<close>: a raise of the cache is logged and dropped.\<close>

definition cache_recommendations :: "rec_cache \<Rightarrow> string \<Rightarrow> candidate list \<Rightarrow> unit" where
  "cache_recommendations cache cache_key recommendations =
     (case setex_recommendations cache cache_key 1800 recommendations of
        Inl e \<Rightarrow> ()
      | Inr u \<Rightarrow> ())"

text \<open>
  The relational queries are taken as answered (\<open>database\<close> holds their rows); the
  learning history is fetched and passed on but never read, and is left out.
\<close>

definition get_recommendations ::
  "rec_cache \<Rightarrow> database \<Rightarrow> string \<Rightarrow> preferences \<Rightarrow> int \<Rightarrow> py_error + candidate list" where
  "get_recommendations cache db uid prefs limit =
     (case get_user_profile cache db uid of
        Inl e \<Rightarrow> Inl e
      | Inr profile \<Rightarrow>
          (case recommend_courses db profile prefs (limit div 2) of
             Inl e \<Rightarrow> Inl e
           | Inr course_recommendations \<Rightarrow>
               (let news_recommendations = recommend_news db profile (limit div 2);
                    all_recommendations = course_recommendations @ news_recommendations;
                    ranked_recommendations = rank_recommendations all_recommendations profile limit;
                    u = cache_recommendations cache (''recommendations:'' @ uid)
                          ranked_recommendations
                in Inr ranked_recommendations)))"

section \<open>Reference definitions\<close>

text \<open>
  The ensemble in the words of its specification: the score of a label is the sum of
  weight times confidence over the adapters that report it, the weights used are those
  of the adapters present, and the verdict is the first label of the order positive,
  negative, neutral whose score is maximal.
\<close>

definition all_adapters :: "adapter list" where
  "all_adapters = [Finbert, Vader, General, Rule_based]"

definition spec_score :: "results \<Rightarrow> label \<Rightarrow> rat" where
  "spec_score results l =
     (\<Sum>m\<leftarrow>all_adapters.
        case map_of results m of
          Some r \<Rightarrow> if sentiment r = l then weights m * confidence r else 0
        | None \<Rightarrow> 0)"

definition spec_weights_used :: "results \<Rightarrow> rat" where
  "spec_weights_used results =
     (\<Sum>m\<leftarrow>all_adapters. case map_of results m of Some r \<Rightarrow> weights m | None \<Rightarrow> 0)"

definition spec_argmax :: "(label \<Rightarrow> rat) \<Rightarrow> label" where
  "spec_argmax s =
     (if s Negative \<le> s Positive \<and> s Neutral \<le> s Positive then Positive
      else if s Neutral \<le> s Negative then Negative
      else Neutral)"


text \<open>
  Ranking in the words of its specification: the cap of a type is the ceiling of 0.6
  times the limit; the sorted candidates are walked, a candidate is admitted while the
  number of admitted candidates of its type is below the cap, and the walk stops once
  \<open>limit\<close> candidates are admitted.
\<close>

definition diversity_cap :: "int \<Rightarrow> nat" where
  "diversity_cap limit = nat \<lceil>rat_of_int limit * (6/10)\<rceil>"

definition type_count :: "string \<Rightarrow> candidate list \<Rightarrow> nat" where
  "type_count t cs = length (filter (\<lambda>c. item_type c = t) cs)"

fun admit :: "nat \<Rightarrow> nat \<Rightarrow> candidate list \<Rightarrow> candidate list \<Rightarrow> candidate list" where
  "admit limit cap admitted [] = admitted"
| "admit limit cap admitted (c # cs) =
     (if limit \<le> length admitted then admitted
      else if type_count (item_type c) admitted < cap then admit limit cap (admitted @ [c]) cs
      else admit limit cap admitted cs)"

section \<open>Example inputs\<close>


definition example_c1 :: course where
  "example_c1 =
     \<lparr>c_id = ''c1'', c_title = ''Stocks 101'', c_category = ''stocks'', c_level = ''beginner'',
      avg_rating = Some 5, review_count = Some 10, created_days_old = Some 10,
      c_language = Some ''en''\<rparr>"

definition example_c2 :: course where
  "example_c2 =
     \<lparr>c_id = ''c2'', c_title = ''Bonds'', c_category = ''bonds'', c_level = ''intermediate'',
      avg_rating = Some 4, review_count = Some 5, created_days_old = Some 60,
      c_language = Some ''en''\<rparr>"

definition example_c3 :: course where
  "example_c3 =
     \<lparr>c_id = ''c3'', c_title = ''Options'', c_category = ''derivatives'', c_level = ''advanced'',
      avg_rating = None, review_count = None, created_days_old = None, c_language = None\<rparr>"

definition example_n1 :: article where
  "example_n1 =
     \<lparr>a_id = ''n1'', a_title = ''Markets rally'', a_summary = ''Stocks up'',
      a_category = ''stocks'', a_sentiment = Some ''positive'', published_hours_old = Some 5\<rparr>"

definition example_n2 :: article where
  "example_n2 =
     \<lparr>a_id = ''n2'', a_title = ''Weather'', a_summary = ''Rain'',
      a_category = ''general'', a_sentiment = None, published_hours_old = None\<rparr>"

definition example_db :: database where
  "example_db =
     \<lparr>db_user = Some \<lparr>user_id = ''42'', user_risk_profile = Some ''moderate''\<rparr>,
      db_learning = [],
      db_trading = [],
      db_courses = [example_c1, example_c2, example_c3],
      db_news = [example_n1, example_n2]\<rparr>"

definition example_cache :: rec_cache where
  "example_cache =
     \<lparr>get_profile = (\<lambda>key. Inr None),
      setex_profile = (\<lambda>key ttl v. Inr ()),
      setex_recommendations = (\<lambda>key ttl v. Inr ())\<rparr>"

definition example_prefs :: preferences where
  "example_prefs = \<lparr>preferred_language = Some ''en''\<rparr>"

definition example_profile :: user_profile where
  "example_profile =
     \<lparr>user_data = Some \<lparr>user_id = ''42'', user_risk_profile = Some ''moderate''\<rparr>,
      learning_progress = [],
      trading_behavior = [],
      interests = Some [],
      skill_level = Some ''beginner'',
      risk_profile = Some ''moderate'',
      preferred_categories = Some []\<rparr>"

definition cand_c1 :: candidate where
  "cand_c1 = \<lparr>item_id = ''c1'', item_type = ''course'', title = ''Stocks 101'',
              category = ''stocks'', score = 3/4\<rparr>"

definition cand_c2 :: candidate where
  "cand_c2 = \<lparr>item_id = ''c2'', item_type = ''course'', title = ''Bonds'',
              category = ''bonds'', score = 51/100\<rparr>"

definition cand_c3 :: candidate where
  "cand_c3 = \<lparr>item_id = ''c3'', item_type = ''course'', title = ''Options'',
              category = ''derivatives'', score = 0\<rparr>"

definition cand_n1 :: candidate where
  "cand_n1 = \<lparr>item_id = ''n1'', item_type = ''news'', title = ''Markets rally'',
              category = ''stocks'', score = 1/2\<rparr>"

definition cand_n2 :: candidate where
  "cand_n2 = \<lparr>item_id = ''n2'', item_type = ''news'', title = ''Weather'',
              category = ''general'', score = 0\<rparr>"

definition scenario_candidates :: "candidate list" where
  "scenario_candidates =
     map (\<lambda>i. \<lparr>item_id = i, item_type = ''course'', title = [], category = [], score = 9/10\<rparr>)
       [''c1'', ''c2'', ''c3'', ''c4'', ''c5'', ''c6'', ''c7'', ''c8'']
     @ map (\<lambda>i. \<lparr>item_id = i, item_type = ''news'', title = [], category = [], score = 8/10\<rparr>)
         [''n1'', ''n2'']"

definition duplicate_candidates :: "candidate list" where
  "duplicate_candidates =
     [\<lparr>item_id = ''1'', item_type = ''course'', title = [], category = [], score = 9/10\<rparr>,
      \<lparr>item_id = ''1'', item_type = ''news'', title = [], category = [], score = 8/10\<rparr>]"

definition example_learning :: "learning_row list" where
  "example_learning =
     [\<lparr>l_category = ''stocks'', l_level = ''beginner'', completed_courses = 2, avg_score = Some 80\<rparr>,
      \<lparr>l_category = ''bonds'', l_level = ''beginner'', completed_courses = 5, avg_score = Some 75\<rparr>,
      \<lparr>l_category = ''funds'', l_level = ''intermediate'', completed_courses = 2, avg_score = None\<rparr>,
      \<lparr>l_category = ''tax'', l_level = ''beginner'', completed_courses = 1, avg_score = Some 90\<rparr>]"

definition split_learning :: "learning_row list" where
  "split_learning =
     [\<lparr>l_category = ''stocks'', l_level = ''beginner'', completed_courses = 3, avg_score = Some 80\<rparr>,
      \<lparr>l_category = ''bonds'', l_level = ''beginner'', completed_courses = 2, avg_score = Some 75\<rparr>,
      \<lparr>l_category = ''bonds'', l_level = ''intermediate'', completed_courses = 2, avg_score = None\<rparr>,
      \<lparr>l_category = ''tax'', l_level = ''beginner'', completed_courses = 1, avg_score = Some 90\<rparr>]"

section \<open>Properties of the sentiment service\<close>

subsection \<open>The rule-based adapter\<close>

lemma count_list_distinct: "distinct ks \<Longrightarrow> count_list ks w = (if w \<in> set ks then 1 else 0)"
  by (induction ks) auto

lemma sum_list_count_cons:
  "(\<Sum>k\<leftarrow>ks. count_list (w # ws) k) = (\<Sum>k\<leftarrow>ks. count_list ws k) + count_list ks w"
  by (induction ks) auto

lemma keyword_count_occurrences:
  "distinct keywords \<Longrightarrow> keyword_count keywords words = (\<Sum>k\<leftarrow>keywords. count_list words k)"
proof (induction words)
  case Nil
  then show ?case by (simp add: keyword_count_def)
next
  case (Cons w ws)
  have "(\<Sum>k\<leftarrow>keywords. count_list (w # ws) k)
        = (\<Sum>k\<leftarrow>keywords. count_list ws k) + count_list keywords w"
    by (rule sum_list_count_cons)
  with Cons show ?case
    by (simp add: keyword_count_def count_list_distinct del: count_list.simps)
qed

lemma keywords_distinct:
  "distinct positive_keywords" "distinct negative_keywords" "distinct neutral_keywords"
  by (simp_all add: positive_keywords_def negative_keywords_def neutral_keywords_def)

lemma rat_share_less:
  "0 < t \<Longrightarrow> (rat_of_nat a / rat_of_nat t < rat_of_nat b / rat_of_nat t) = (a < b)"
  by (simp add: divide_less_cancel)

text \<open>
  Claim C5, as the code has it. With \<open>p\<close>, \<open>n\<close>, \<open>u\<close> the numbers of tokens of the
  lower-cased text that occur in the positive, negative and neutral keyword list (each
  the sum over the list's keywords of the keyword's occurrences): when no keyword
  matches the verdict is neutral with confidence 1/2; otherwise the label is positive
  exactly when \<open>p\<close> is strictly above both other counts, negative exactly when \<open>n\<close> is,
  and neutral in every other case (every tie goes to neutral); the confidence of a
  positive or negative verdict is that count's share of \<open>p + n + u\<close>, and the confidence
  of a neutral verdict is the larger of neutral's share and 1/2.
\<close>

theorem analyze_with_rules_verdict:
  assumes "words = tok (lower text)"
    and "p = keyword_count positive_keywords words"
    and "n = keyword_count negative_keywords words"
    and "u = keyword_count neutral_keywords words"
    and "r = analyze_with_rules tok text"
  shows "p = (\<Sum>k\<leftarrow>positive_keywords. count_list words k) \<and>
         n = (\<Sum>k\<leftarrow>negative_keywords. count_list words k) \<and>
         u = (\<Sum>k\<leftarrow>neutral_keywords. count_list words k) \<and>
         (p + n + u = 0 \<longrightarrow> sentiment r = Neutral \<and> confidence r = 1/2) \<and>
         (0 < p + n + u \<longrightarrow>
            (sentiment r = Positive \<longleftrightarrow> n < p \<and> u < p) \<and>
            (sentiment r = Negative \<longleftrightarrow> p < n \<and> u < n) \<and>
            (sentiment r = Positive \<longrightarrow> confidence r = rat_of_nat p / rat_of_nat (p + n + u)) \<and>
            (sentiment r = Negative \<longrightarrow> confidence r = rat_of_nat n / rat_of_nat (p + n + u)) \<and>
            (sentiment r = Neutral \<longrightarrow>
               confidence r = max (rat_of_nat u / rat_of_nat (p + n + u)) (1/2)))"
proof -
  have counts: "p = (\<Sum>k\<leftarrow>positive_keywords. count_list words k)"
    "n = (\<Sum>k\<leftarrow>negative_keywords. count_list words k)"
    "u = (\<Sum>k\<leftarrow>neutral_keywords. count_list words k)"
    using assms(2-4) by (simp_all add: keyword_count_occurrences keywords_distinct)
  have zero: "p + n + u = 0 \<longrightarrow> sentiment r = Neutral \<and> confidence r = 1/2"
    using assms by (simp add: analyze_with_rules_def Let_def)
  have pos: "0 < p + n + u \<longrightarrow>
            (sentiment r = Positive \<longleftrightarrow> n < p \<and> u < p) \<and>
            (sentiment r = Negative \<longleftrightarrow> p < n \<and> u < n) \<and>
            (sentiment r = Positive \<longrightarrow> confidence r = rat_of_nat p / rat_of_nat (p + n + u)) \<and>
            (sentiment r = Negative \<longrightarrow> confidence r = rat_of_nat n / rat_of_nat (p + n + u)) \<and>
            (sentiment r = Neutral \<longrightarrow>
               confidence r = max (rat_of_nat u / rat_of_nat (p + n + u)) (1/2))"
  proof
    assume t: "0 < p + n + u"
    have r: "r = (let t = rat_of_nat (p + n + u);
                (s, c) =
                 (if n < p \<and> u < p then (Positive, rat_of_nat p / t)
                  else if p < n \<and> u < n then (Negative, rat_of_nat n / t)
                  else (Neutral, max (rat_of_nat u / t) (1/2)))
           in \<lparr>sentiment = s, confidence = c,
                keyword_counts = Some (p, n, u),
                scores = Some (rat_of_nat p / t, rat_of_nat n / t, rat_of_nat u / t)\<rparr>)"
      using assms t rat_share_less[OF t]
      by (simp add: analyze_with_rules_def Let_def del: of_nat_add)
    show "(sentiment r = Positive \<longleftrightarrow> n < p \<and> u < p) \<and>
            (sentiment r = Negative \<longleftrightarrow> p < n \<and> u < n) \<and>
            (sentiment r = Positive \<longrightarrow> confidence r = rat_of_nat p / rat_of_nat (p + n + u)) \<and>
            (sentiment r = Negative \<longrightarrow> confidence r = rat_of_nat n / rat_of_nat (p + n + u)) \<and>
            (sentiment r = Neutral \<longrightarrow>
               confidence r = max (rat_of_nat u / rat_of_nat (p + n + u)) (1/2))"
      unfolding r by (auto simp: Let_def)
  qed
  from counts zero pos show ?thesis by blast
qed

text \<open>
  The theorem at the tokens beat, loss, surge: two positive keywords against one
  negative one give a positive verdict with confidence 2/3.
\<close>

theorem analyze_with_rules_verdict_witness:
  "sentiment (analyze_with_rules
      (\<lambda>s. if s = ''beat loss surge'' then [''beat'', ''loss'', ''surge''] else [])
      ''Beat loss SURGE'') = Positive \<and>
   confidence (analyze_with_rules
      (\<lambda>s. if s = ''beat loss surge'' then [''beat'', ''loss'', ''surge''] else [])
      ''Beat loss SURGE'') = 2/3"
  using analyze_with_rules_verdict
    [of "[''beat'', ''loss'', ''surge'']"
        "\<lambda>s. if s = ''beat loss surge'' then [''beat'', ''loss'', ''surge''] else []"
        "''Beat loss SURGE''" 2 1 0,
     OF _ _ _ _ refl]
  by (simp add: lower_def char_lower_def keyword_count_def positive_keywords_def
      negative_keywords_def neutral_keywords_def)

text \<open>
  Claim C5 as stated fails: on the tokens profit, loss the counts tie, the verdict is
  neutral with confidence 1/2, and the share of the neutral keywords among the
  sentiment-bearing words is 0.
\<close>

theorem analyze_with_rules_share_counterexample:
  "sentiment (analyze_with_rules
      (\<lambda>s. if s = ''profit loss'' then [''profit'', ''loss''] else [])
      ''Profit Loss'') = Neutral \<and>
   confidence (analyze_with_rules
      (\<lambda>s. if s = ''profit loss'' then [''profit'', ''loss''] else [])
      ''Profit Loss'') = 1/2 \<and>
   rat_of_nat (keyword_count neutral_keywords [''profit'', ''loss''])
     / rat_of_nat (keyword_count positive_keywords [''profit'', ''loss'']
         + keyword_count negative_keywords [''profit'', ''loss'']
         + keyword_count neutral_keywords [''profit'', ''loss'']) = 0"
  by (simp add: analyze_with_rules_def lower_def char_lower_def keyword_count_def
      positive_keywords_def negative_keywords_def neutral_keywords_def Let_def)

subsection \<open>The ensemble\<close>

lemma py_max_key_labels: "py_max_key f Positive [Negative, Neutral] = spec_argmax f"
  by (auto simp: spec_argmax_def)

lemma spec_argmax_scale: "0 < w \<Longrightarrow> spec_argmax (\<lambda>l. s l / w) = spec_argmax s"
  by (simp add: spec_argmax_def divide_le_cancel)

lemma accumulate_spec:
  "accumulate results model_order (\<lambda>_. 0, 0) = (spec_score results, spec_weights_used results)"
  by (auto simp: model_order_def all_adapters_def spec_score_def spec_weights_used_def fun_eq_iff
      split: option.splits)

lemma adapter_present: "results \<noteq> [] \<Longrightarrow> \<exists>m r. map_of results m = Some r"
  by (cases results) auto


lemma spec_weights_used_pos:
  assumes "results \<noteq> []"
  shows "0 < spec_weights_used results"
proof -
  from adapter_present[OF assms] obtain m r where "map_of results m = Some r" by blast
  then show ?thesis
    by (cases m) (simp_all add: spec_weights_used_def all_adapters_def split: option.splits)
qed

lemma collect_sentiments_empty:
  "(collect_sentiments results model_order = []) = (results = [])"
proof
  assume "collect_sentiments results model_order = []"
  then have none: "map_of results m = None" for m
    by (cases m) (auto simp: model_order_def split: option.splits)
  show "results = []"
  proof (rule ccontr)
    assume "results \<noteq> []"
    from adapter_present[OF this] none show False by simp
  qed
next
  assume "results = []"
  then show "collect_sentiments results model_order = []"
    by (simp add: model_order_def)
qed

lemma create_ensemble_result_eq:
  assumes "results \<noteq> []"
  shows "create_ensemble_result results =
           [(''sentiment'', PLabel (spec_argmax (spec_score results))),
            (''confidence'',
               PNum (spec_score results (spec_argmax (spec_score results))
                       / spec_weights_used results)),
            (''scores'', PScores (\<lambda>l. spec_score results l / spec_weights_used results)),
            (''models_used'', PModels (map fst results)),
            (''total_weight'', PNum (spec_weights_used results))]"
  using assms spec_weights_used_pos[OF assms]
  by (simp add: create_ensemble_result_def collect_sentiments_empty accumulate_spec
      normalize_scores_def py_max_key_labels spec_argmax_scale Let_def del: py_max_key.simps)










text \<open>
  Claim C7, as the code has it. When no adapter contributes, the result is the
  dictionary of exactly the two entries sentiment = neutral and confidence = 1/2; a
  result combined from at least one adapter has the keys sentiment, confidence, scores,
  models_used and total_weight.
\<close>

theorem ensemble_no_adapter:
  "((\<forall>m. map_of results m = None) \<longrightarrow>
      create_ensemble_result results
        = [(''sentiment'', PLabel Neutral), (''confidence'', PNum (1/2))])
   \<and> (\<not> (\<forall>m. map_of results m = None) \<longrightarrow>
      map fst (create_ensemble_result results)
        = [''sentiment'', ''confidence'', ''scores'', ''models_used'', ''total_weight''])"
proof (cases "results = []")
  case True
  then show ?thesis by (simp add: create_ensemble_result_def model_order_def)
next
  case False
  from adapter_present[OF False] have "\<not> (\<forall>m. map_of results m = None)" by auto
  then show ?thesis by (simp add: create_ensemble_result_eq[OF False])
qed

text \<open>
  The theorem at the empty result set, and at rule_based alone.
\<close>

theorem ensemble_no_adapter_witness:
  "create_ensemble_result [] = [(''sentiment'', PLabel Neutral), (''confidence'', PNum (1/2))]
   \<and> map fst (create_ensemble_result [(Rule_based, \<lparr>sentiment = Neutral, confidence = 1/2\<rparr>)])
       = [''sentiment'', ''confidence'', ''scores'', ''models_used'', ''total_weight'']"
  using ensemble_no_adapter[of "[]"]
    ensemble_no_adapter[of "[(Rule_based, \<lparr>sentiment = Neutral, confidence = 1/2\<rparr>)]"]
  by simp

text \<open>
  Claim C7 as stated fails: the result for no adapter has no entry besides sentiment
  and confidence, so it carries no flag; its label and confidence are those of the
  verdict combined from rule_based alone reporting neutral with confidence 1/2.
\<close>

theorem ensemble_no_flag_counterexample:
  "create_ensemble_result [] = [(''sentiment'', PLabel Neutral), (''confidence'', PNum (1/2))]
   \<and> \<not> (\<exists>k v. (k, v) \<in> set (create_ensemble_result [])
               \<and> k \<noteq> ''sentiment'' \<and> k \<noteq> ''confidence'')
   \<and> map_of (create_ensemble_result [(Rule_based, \<lparr>sentiment = Neutral, confidence = 1/2\<rparr>)])
        ''sentiment'' = Some (PLabel Neutral)
   \<and> map_of (create_ensemble_result [(Rule_based, \<lparr>sentiment = Neutral, confidence = 1/2\<rparr>)])
        ''confidence'' = Some (PNum (1/2))"
  by (auto simp: create_ensemble_result_def model_order_def normalize_scores_def)

subsection \<open>Confidences and scores\<close>









subsection \<open>Chunking\<close>

lemma split_text_nonempty: "split_text tok t n \<noteq> []"
  by (simp add: split_text_def Let_def split: prod.splits)

lemma strip_no_space_ends:
  assumes "s \<noteq> []" "\<not> is_space (hd s)" "\<not> is_space (last s)"
  shows "strip s = s"
proof -
  have "dropWhile is_space s = s"
    using assms(2) by (simp add: dropWhile_eq_self_iff)
  moreover have "dropWhile is_space (rev s) = rev s"
    using assms(1,3) by (simp add: dropWhile_eq_self_iff hd_rev)
  ultimately show ?thesis by (simp add: strip_def)
qed

text \<open>
  Claim C6 at failing inputs. The sentences Hi. and Yo. (3 characters each) with
  \<open>max_len\<close> 6 are packed into the one chunk Hi. Yo. of 7 characters: the length test
  leaves out the separating space. At the length 512 that the adapters pass, sentences
  of 300 and 212 characters give one chunk of 513 characters.
\<close>

theorem split_text_separator_overflow:
  "split_text (\<lambda>t. if t = ''Hi. Yo.'' then [''Hi.'', ''Yo.''] else []) ''Hi. Yo.'' 6
     = [''Hi. Yo.'']
   \<and> length ''Hi. Yo.'' = 7 \<and> length ''Hi.'' = 3 \<and> length ''Yo.'' = 3
   \<and> split_text (\<lambda>t. [replicate 300 (CHR ''a''), replicate 212 (CHR ''b'')])
        (replicate 300 (CHR ''a'') @ '' '' @ replicate 212 (CHR ''b'')) 512
       = [replicate 300 (CHR ''a'') @ '' '' @ replicate 212 (CHR ''b'')]
   \<and> length (replicate 300 (CHR ''a'') @ '' '' @ replicate 212 (CHR ''b'')) = 513"
proof -
  have small: "split_text (\<lambda>t. if t = ''Hi. Yo.'' then [''Hi.'', ''Yo.''] else []) ''Hi. Yo.'' 6
     = [''Hi. Yo.'']"
    by (simp add: split_text_def strip_def is_space_def)
  let ?c = "replicate 300 (CHR ''a'') @ '' '' @ replicate 212 (CHR ''b'')"
  have a: "replicate 300 (CHR ''a'') \<noteq> []" by simp
  have ne: "?c \<noteq> []" by simp
  have h: "hd ?c = CHR ''a''" by (simp add: hd_append)
  have l: "last ?c = CHR ''b''" by simp
  have st: "strip ?c = ?c"
    by (rule strip_no_space_ends[OF ne]) (simp_all only: h l, simp_all add: is_space_def)
  have big: "split_text (\<lambda>t. [replicate 300 (CHR ''a''), replicate 212 (CHR ''b'')]) ?c 512
       = [?c]"
    using st a by (simp add: split_text_def)
  from small big show ?thesis by simp
qed

section \<open>Properties of the recommendation service\<close>

subsection \<open>Ranking\<close>

lemma below_cap: "(rat_of_nat k < rat_of_int limit * (6/10)) = (k < diversity_cap limit)"
proof -
  have "(k < diversity_cap limit) = (int k < \<lceil>rat_of_int limit * (6/10)\<rceil>)"
    by (simp add: diversity_cap_def zless_nat_eq_int_zless)
  also have "\<dots> = (rat_of_int (int k) < rat_of_int limit * (6/10))"
    by (rule less_ceiling_iff)
  finally show ?thesis by simp
qed

lemma rank_loop_step:
  "rank_loop limit (c # cs) final tc =
     (if length final < nat limit \<and> tc (item_type c) < diversity_cap limit
      then rank_loop limit cs (final @ [c]) (tc(item_type c := tc (item_type c) + 1))
      else rank_loop limit cs final tc)"
  unfolding rank_loop.simps below_cap zless_nat_eq_int_zless ..

lemma type_count_snoc:
  "(\<lambda>t. type_count t (final @ [c]))
     = (\<lambda>t. type_count t final)(item_type c := type_count (item_type c) final + 1)"
  by (auto simp: type_count_def fun_eq_iff)

lemma rank_loop_stays:
  "\<not> length final < nat limit \<Longrightarrow> rank_loop limit ranked final tc = final"
  by (induction ranked) (simp_all add: rank_loop_step del: rank_loop.simps(2))

lemma rank_loop_admit:
  "rank_loop limit ranked final (\<lambda>t. type_count t final)
     = admit (nat limit) (diversity_cap limit) final ranked"
proof (induction ranked arbitrary: final)
  case Nil
  show ?case by simp
next
  case (Cons c cs)
  show ?case
  proof (cases "length final < nat limit")
    case False
    then show ?thesis
      by (simp add: rank_loop_stays[OF False] del: rank_loop.simps(2))
  next
    case True
    then show ?thesis
      using Cons.IH[of "final @ [c]"] Cons.IH[of final]
      by (simp add: rank_loop_step type_count_snoc del: rank_loop.simps(2))
  qed
qed

lemma rank_recommendations_admit:
  "rank_recommendations recs profile limit
     = admit (nat limit) (diversity_cap limit) [] (py_sorted_desc score recs)"
  using rank_loop_admit[of limit "py_sorted_desc score recs" "[]"]
  by (simp add: rank_recommendations_def type_count_def)

lemma admit_length:
  "length admitted \<le> limit \<Longrightarrow> length (admit limit cap admitted cs) \<le> limit"
  by (induction cs arbitrary: admitted) auto

lemma admit_type_count:
  "type_count t admitted \<le> cap \<Longrightarrow> type_count t (admit limit cap admitted cs) \<le> cap"
proof (induction cs arbitrary: admitted)
  case Nil
  then show ?case by simp
next
  case (Cons c cs)
  have "type_count (item_type c) admitted < cap \<Longrightarrow> type_count t (admitted @ [c]) \<le> cap"
    using Cons.prems by (auto simp: type_count_def)
  with Cons show ?case by auto
qed

lemma admit_mset: "mset (admit limit cap admitted cs) \<subseteq># mset admitted + mset cs"
proof (induction cs arbitrary: admitted)
  case Nil
  show ?case by simp
next
  case (Cons c cs)
  have a: "mset (admit limit cap (admitted @ [c]) cs) \<subseteq># mset admitted + mset (c # cs)"
    using Cons.IH[of "admitted @ [c]"] by simp
  have b: "mset (admit limit cap admitted cs) \<subseteq># mset admitted + mset (c # cs)"
    using Cons.IH[of admitted]
    by (metis add_mset_add_single mset.simps(2) mset_subset_eq_add_left union_assoc subset_mset.order_trans)
  from a b show ?case by simp
qed

lemma py_sorted_desc_sorted:
  "sorted_wrt (\<lambda>a b. (k b :: 'k :: linordered_ab_group_add) \<le> k a) (py_sorted_desc k xs)"
  (is "sorted_wrt ?R ?s")
proof -
  have "sorted (map (\<lambda>x. - k x) ?s)"
    unfolding py_sorted_desc_def by (rule sorted_sort_key)
  then show ?thesis by (simp add: sorted_map)
qed

lemma py_sorted_desc_mset: "mset (py_sorted_desc k xs) = mset xs"
  by (simp add: py_sorted_desc_def)

lemma py_sorted_desc_stable:
  "filter (\<lambda>x. (k x :: 'k :: linordered_ab_group_add) = v) (py_sorted_desc k xs) = filter (\<lambda>x. k x = v) xs"
proof -
  have "filter (\<lambda>x. - k x = - v) (sort_key (\<lambda>x. - k x) xs) = filter (\<lambda>x. - k x = - v) xs"
    by (rule sort_key_stable)
  then show ?thesis by (simp add: py_sorted_desc_def)
qed

lemma rank_mset: "mset (rank_recommendations recs profile limit) \<subseteq># mset recs"
  using admit_mset[of "nat limit" "diversity_cap limit" "[]" "py_sorted_desc score recs"]
  by (simp add: rank_recommendations_admit py_sorted_desc_mset)

lemma rank_length_nat: "length (rank_recommendations recs profile limit) \<le> nat limit"
  by (simp add: rank_recommendations_admit admit_length)

lemma rank_length_input: "length (rank_recommendations recs profile limit) \<le> length recs"
  using size_mset_mono[OF rank_mset[of recs profile limit]] by simp

lemma mset_subseteq_distinct:
  assumes "mset xs \<subseteq># mset ys" and "distinct ys"
  shows "distinct xs"
proof -
  have "count (mset xs) a \<le> 1" for a
  proof -
    have "count (mset xs) a \<le> count (mset ys) a"
      using assms(1) by (rule mset_subset_eq_count)
    also have "\<dots> \<le> 1"
      using assms(2) by (simp add: distinct_count_atmost_1)
    finally show ?thesis .
  qed
  then show ?thesis
    unfolding distinct_count_atmost_1
    by (metis count_greater_zero_iff le_neq_implies_less less_one not_gr_zero set_mset_mset)
qed

lemma mset_take_subseteq: "mset (take n xs) \<subseteq># mset xs"
proof -
  have "mset xs = mset (take n xs) + mset (drop n xs)"
    by (metis append_take_drop_id mset_append)
  then show ?thesis by simp
qed

lemma py_slice_to_length: "0 \<le> n \<Longrightarrow> int (length (py_slice_to xs n)) \<le> n"
  by (simp add: py_slice_to_def)

lemma py_slice_to_mset: "mset (py_slice_to xs n) \<subseteq># mset xs"
  by (simp add: py_slice_to_def mset_take_subseteq)

text \<open>
  Claim C2. For a positive limit, \<^verbatim>\<open>_rank_recommendations\<close> is the walk of the
  specification over the candidates sorted by descending score, the sort being stable
  and a permutation of the input; it returns at most \<open>limit\<close> items and at most
  \<open>ceil(limit * 0.6)\<close> items of any one type.
\<close>

theorem rank_recommendations_quota:
  assumes "0 < limit"
  shows "rank_recommendations recs profile limit
           = admit (nat limit) (nat \<lceil>rat_of_int limit * (6/10)\<rceil>) []
               (py_sorted_desc score recs)
         \<and> sorted_wrt (\<lambda>a b. score b \<le> score a) (py_sorted_desc score recs)
         \<and> mset (py_sorted_desc score recs) = mset recs
         \<and> (\<forall>v. filter (\<lambda>c. score c = v) (py_sorted_desc score recs)
                 = filter (\<lambda>c. score c = v) recs)
         \<and> int (length (rank_recommendations recs profile limit)) \<le> limit
         \<and> (\<forall>t. int (type_count t (rank_recommendations recs profile limit))
                 \<le> \<lceil>rat_of_int limit * (6/10)\<rceil>)"
proof -
  have len: "int (length (rank_recommendations recs profile limit)) \<le> limit"
    using rank_length_nat[of recs profile limit] assms by linarith
  have cap: "int (type_count t (rank_recommendations recs profile limit))
               \<le> \<lceil>rat_of_int limit * (6/10)\<rceil>" for t
  proof -
    have "type_count t (rank_recommendations recs profile limit) \<le> diversity_cap limit"
      unfolding rank_recommendations_admit
      by (rule admit_type_count) (simp add: type_count_def)
    moreover have "0 \<le> rat_of_int limit * (6/10)" using assms by simp
    then have "0 \<le> \<lceil>rat_of_int limit * (6/10)\<rceil>" by (metis ceiling_mono ceiling_zero)
    ultimately show ?thesis unfolding diversity_cap_def by linarith
  qed
  from len cap show ?thesis
    using rank_recommendations_admit[of recs profile limit]
      py_sorted_desc_sorted[of score recs] py_sorted_desc_stable[of score _ recs]
    by (simp add: diversity_cap_def py_sorted_desc_mset)
qed

text \<open>
  Claim C3, as the code has it. For every candidate list and every limit the result has
  at most \<open>max(limit, 0)\<close> entries, and every item id occurs in it at most as often as
  among the candidates: the result has no duplicate id when the candidates have none.
\<close>

theorem rank_recommendations_limit_ids:
  "int (length (rank_recommendations recs profile limit)) \<le> max 0 limit
   \<and> mset (map item_id (rank_recommendations recs profile limit)) \<subseteq># mset (map item_id recs)
   \<and> (distinct (map item_id recs)
        \<longrightarrow> distinct (map item_id (rank_recommendations recs profile limit)))"
proof -
  have len: "int (length (rank_recommendations recs profile limit)) \<le> max 0 limit"
    using rank_length_nat[of recs profile limit] by linarith
  have sub: "mset (map item_id (rank_recommendations recs profile limit))
               \<subseteq># mset (map item_id recs)"
    using image_mset_subseteq_mono[OF rank_mset[of recs profile limit], of item_id] by simp
  from len sub show ?thesis
    using mset_subseteq_distinct by blast
qed

lemma recommend_courses_length:
  assumes "0 \<le> n" and "recommend_courses db p prefs n = Inr cs"
  shows "int (length cs) \<le> n"
proof (cases "user_data p")
  case None
  with assms(2) show ?thesis by (simp add: recommend_courses_def)
next
  case (Some u)
  with assms show ?thesis
    by (auto simp: recommend_courses_def Let_def py_slice_to_length split: if_splits)
qed

lemma recommend_news_length:
  assumes "0 \<le> n"
  shows "int (length (recommend_news db p n)) \<le> n"
  using assms by (simp add: recommend_news_def Let_def py_slice_to_length)

text \<open>
  Claim C10, as the code has it. For a limit that is not negative, at most
  \<open>limit // 2\<close> course candidates and at most \<open>limit // 2\<close> news candidates are
  requested, a returned set has at most \<open>2 * (limit // 2)\<close> entries, and for an odd
  limit it is strictly shorter than the limit.
\<close>

theorem get_recommendations_halves:
  assumes "0 \<le> limit" and "get_recommendations cache db uid prefs limit = Inr recs"
  shows "(\<forall>p cs. recommend_courses db p prefs (limit div 2) = Inr cs
                 \<longrightarrow> int (length cs) \<le> limit div 2)
         \<and> (\<forall>p. int (length (recommend_news db p (limit div 2))) \<le> limit div 2)
         \<and> int (length recs) \<le> 2 * (limit div 2)
         \<and> (odd limit \<longrightarrow> int (length recs) < limit)"
proof -
  from assms(1) have half: "0 \<le> limit div 2" by simp
  have courses: "\<forall>p cs. recommend_courses db p prefs (limit div 2) = Inr cs
                 \<longrightarrow> int (length cs) \<le> limit div 2"
    using recommend_courses_length[OF half] by blast
  have news: "\<forall>p. int (length (recommend_news db p (limit div 2))) \<le> limit div 2"
    using recommend_news_length[OF half] by blast
  from assms(2) obtain profile cs where
    cs: "recommend_courses db profile prefs (limit div 2) = Inr cs" and
    recs: "recs = rank_recommendations (cs @ recommend_news db profile (limit div 2)) profile limit"
    by (auto simp: get_recommendations_def Let_def split: sum.splits)
  have "length recs \<le> length (cs @ recommend_news db profile (limit div 2))"
    unfolding recs by (rule rank_length_input)
  then have "int (length recs)
               \<le> int (length cs) + int (length (recommend_news db profile (limit div 2)))"
    by simp
  also have "\<dots> \<le> limit div 2 + limit div 2"
    using courses cs news by (intro add_mono) auto
  finally have total: "int (length recs) \<le> 2 * (limit div 2)" by simp
  have "odd limit \<longrightarrow> int (length recs) < limit"
  proof
    assume "odd limit"
    then have "2 * (limit div 2) < limit" by presburger
    with total show "int (length recs) < limit" by linarith
  qed
  with courses news total show ?thesis by blast
qed

text \<open>
  Claim C9, as the code has it. \<^verbatim>\<open>_get_preferred_categories\<close> lists the category of
  each of the first three learning rows (one row per category and level) in the stable
  descending order of the row's completed-course count; it has \<open>min(3, number of rows)\<close>
  entries, and no category twice when every category has one row only. A profile built
  on a cache miss carries this list.
\<close>

theorem get_preferred_categories_rows:
  "length (get_preferred_categories learning_data) = min 3 (length learning_data)
   \<and> get_preferred_categories learning_data
       = map l_category (take 3 (py_sorted_desc completed_courses learning_data))
   \<and> sorted_wrt (\<lambda>a b. completed_courses b \<le> completed_courses a)
       (py_sorted_desc completed_courses learning_data)
   \<and> mset (py_sorted_desc completed_courses learning_data) = mset learning_data
   \<and> (\<forall>v. filter (\<lambda>r. completed_courses r = v) (py_sorted_desc completed_courses learning_data)
           = filter (\<lambda>r. completed_courses r = v) learning_data)
   \<and> (distinct (map l_category learning_data)
        \<longrightarrow> distinct (get_preferred_categories learning_data))
   \<and> (\<forall>cache db uid p.
         get_profile cache (''user_profile:'' @ uid) = Inr None
         \<longrightarrow> get_user_profile cache db uid = Inr p
         \<longrightarrow> preferred_categories p = Some (get_preferred_categories (db_learning db)))"
proof -
  let ?s = "py_sorted_desc completed_courses learning_data"
  have eq: "get_preferred_categories learning_data = map l_category (take 3 ?s)"
    by (simp add: get_preferred_categories_def py_slice_to_def py_sorted_desc_def)
  have len: "length (get_preferred_categories learning_data) = min 3 (length learning_data)"
    unfolding eq by (simp add: py_sorted_desc_def)
  have dist: "distinct (map l_category learning_data)
                \<longrightarrow> distinct (get_preferred_categories learning_data)"
  proof
    assume d: "distinct (map l_category learning_data)"
    have "mset (take 3 ?s) \<subseteq># mset learning_data"
      using mset_take_subseteq[of 3 ?s] by (simp add: py_sorted_desc_mset)
    from image_mset_subseteq_mono[OF this, of l_category]
    have "mset (map l_category (take 3 ?s)) \<subseteq># mset (map l_category learning_data)"
      by simp
    from mset_subseteq_distinct[OF this d]
    show "distinct (get_preferred_categories learning_data)" unfolding eq .
  qed
  have prof: "\<forall>cache db uid p.
         get_profile cache (''user_profile:'' @ uid) = Inr None
         \<longrightarrow> get_user_profile cache db uid = Inr p
         \<longrightarrow> preferred_categories p = Some (get_preferred_categories (db_learning db))"
    by (auto simp: get_user_profile_def Let_def split: sum.splits)
  from eq len dist prof show ?thesis
    using py_sorted_desc_sorted[of completed_courses learning_data]
      py_sorted_desc_stable[of completed_courses _ learning_data]
    by (simp add: py_sorted_desc_mset)
qed

subsection \<open>Evaluation on the example inputs\<close>

lemma example_profile_built:
  "get_user_profile (c\<lparr>get_profile := \<lambda>key. Inr None, setex_profile := \<lambda>key ttl v. Inr ()\<rparr>)
     example_db ''42'' = Inr example_profile"
  by (simp add: get_user_profile_def example_db_def example_profile_def
      extract_interests_def determine_skill_level_def get_preferred_categories_def)

lemma example_course_scores:
  "calculate_course_score example_c1 example_profile example_prefs = 3/4"
  "calculate_course_score example_c2 example_profile example_prefs = 51/100"
  "calculate_course_score example_c3 example_profile example_prefs = 0"
  by (simp_all add: example_c1_def example_c2_def example_c3_def calculate_course_score_def
      example_profile_def example_prefs_def level_mapping_def Let_def)

lemma example_news_scores:
  "calculate_news_score example_n1 [] = 1/2"
  "calculate_news_score example_n2 [] = 0"
  by (simp_all add: example_n1_def example_n2_def calculate_news_score_def Let_def)

lemma example_fields:
  "c_id example_c1 = ''c1''" "c_title example_c1 = ''Stocks 101''" "c_category example_c1 = ''stocks''"
  "c_id example_c2 = ''c2''" "c_title example_c2 = ''Bonds''" "c_category example_c2 = ''bonds''"
  "c_id example_c3 = ''c3''" "c_title example_c3 = ''Options''"
  "c_category example_c3 = ''derivatives''"
  "a_id example_n1 = ''n1''" "a_title example_n1 = ''Markets rally''"
  "a_category example_n1 = ''stocks''"
  "a_id example_n2 = ''n2''" "a_title example_n2 = ''Weather''" "a_category example_n2 = ''general''"
  by (simp_all add: example_c1_def example_c2_def example_c3_def example_n1_def example_n2_def)

lemma cand_fields:
  "score cand_c1 = 3/4" "score cand_c2 = 51/100" "score cand_c3 = 0"
  "score cand_n1 = 1/2" "score cand_n2 = 0"
  "item_type cand_c1 = ''course''" "item_type cand_c2 = ''course''" "item_type cand_c3 = ''course''"
  "item_type cand_n1 = ''news''" "item_type cand_n2 = ''news''"
  "item_id cand_c1 = ''c1''" "item_id cand_c2 = ''c2''" "item_id cand_c3 = ''c3''"
  "item_id cand_n1 = ''n1''" "item_id cand_n2 = ''n2''"
  by (simp_all add: cand_c1_def cand_c2_def cand_c3_def cand_n1_def cand_n2_def)

lemma example_profile_fields:
  "user_data example_profile = Some \<lparr>user_id = ''42'', user_risk_profile = Some ''moderate''\<rparr>"
  "interests example_profile = Some []"
  by (simp_all add: example_profile_def)

lemma example_recommend_courses:
  "recommend_courses example_db example_profile example_prefs n
     = Inr (py_slice_to [cand_c1, cand_c2, cand_c3] n)"
  by (simp add: recommend_courses_def example_db_def example_course_scores example_fields
      py_sorted_desc_def cand_c1_def cand_c2_def cand_c3_def example_profile_fields)

lemma example_recommend_news:
  "recommend_news example_db example_profile n = py_slice_to [cand_n1, cand_n2] n"
  by (simp add: recommend_news_def example_db_def example_fields py_sorted_desc_def
      cand_n1_def cand_n2_def example_profile_fields example_news_scores)

lemma sorted_scenario: "py_sorted_desc score scenario_candidates = scenario_candidates"
  by (simp add: py_sorted_desc_def scenario_candidates_def)

lemma rank_scenario:
  "map item_id (rank_recommendations scenario_candidates example_profile 10)
     = [''c1'', ''c2'', ''c3'', ''c4'', ''c5'', ''c6'', ''n1'', ''n2'']"
  unfolding rank_recommendations_def Let_def sorted_scenario
  by (simp add: scenario_candidates_def)

lemma example_get_recommendations:
  "get_recommendations
     (c\<lparr>get_profile := \<lambda>key. Inr None, setex_profile := \<lambda>key ttl v. Inr ()\<rparr>)
     example_db ''42'' example_prefs limit
   = Inr (rank_recommendations
            (py_slice_to [cand_c1, cand_c2, cand_c3] (limit div 2)
             @ py_slice_to [cand_n1, cand_n2] (limit div 2))
            example_profile limit)"
  by (simp add: get_recommendations_def example_profile_built example_recommend_courses
      example_recommend_news Let_def)

lemma example_cache_shape:
  "example_cache = example_cache\<lparr>get_profile := \<lambda>key. Inr None, setex_profile := \<lambda>key ttl v. Inr ()\<rparr>"
  by (simp add: example_cache_def)

lemma example_limit_3:
  "get_recommendations example_cache example_db ''42'' example_prefs 3 = Inr [cand_c1, cand_n1]"
  by (subst example_cache_shape, subst example_get_recommendations)
    (simp add: py_slice_to_def rank_recommendations_def py_sorted_desc_def cand_fields)

lemma example_learning_sorted:
  "get_preferred_categories example_learning = [''bonds'', ''stocks'', ''funds'']"
  by (simp add: get_preferred_categories_def example_learning_def py_sorted_desc_def
      py_slice_to_def)

text \<open>
  The theorem at the specification's scenario: limit 10, eight courses of score 0.9 and
  two news items of score 0.8 give six courses followed by the two news items.
\<close>

theorem rank_recommendations_quota_witness:
  "map item_id (rank_recommendations scenario_candidates example_profile 10)
     = [''c1'', ''c2'', ''c3'', ''c4'', ''c5'', ''c6'', ''n1'', ''n2'']
   \<and> rank_recommendations scenario_candidates example_profile 10
       = admit 10 6 [] scenario_candidates
   \<and> int (length (rank_recommendations scenario_candidates example_profile 10)) \<le> 10
   \<and> int (type_count ''course'' (rank_recommendations scenario_candidates example_profile 10)) \<le> 6"
proof -
  have pos: "(0::int) < 10" by simp
  have cap: "\<lceil>rat_of_int 10 * (6/10)\<rceil> = 6" by simp
  note q = rank_recommendations_quota[OF pos, of scenario_candidates example_profile]
  from q have e: "rank_recommendations scenario_candidates example_profile 10
                    = admit 10 6 [] scenario_candidates"
    unfolding cap sorted_scenario by simp
  from q have l: "int (length (rank_recommendations scenario_candidates example_profile 10)) \<le> 10"
    by blast
  from q have "\<forall>t. int (type_count t (rank_recommendations scenario_candidates example_profile 10))
                    \<le> \<lceil>rat_of_int 10 * (6/10)\<rceil>"
    by blast
  then have t: "int (type_count ''course''
                  (rank_recommendations scenario_candidates example_profile 10)) \<le> 6"
    unfolding cap by blast
  from rank_scenario e l t show ?thesis by blast
qed

text \<open>
  The theorem at the same scenario, whose candidates have distinct ids.
\<close>

theorem rank_recommendations_limit_ids_witness:
  "distinct (map item_id scenario_candidates)
   \<and> distinct (map item_id (rank_recommendations scenario_candidates example_profile 10))
   \<and> int (length (rank_recommendations scenario_candidates example_profile 10)) \<le> 10"
proof -
  have d: "distinct (map item_id scenario_candidates)"
    by (simp add: scenario_candidates_def)
  with rank_recommendations_limit_ids[of scenario_candidates example_profile 10]
  show ?thesis by simp
qed

text \<open>
  Claim C3 as stated fails: a course and a news item that share the id 1 are both
  returned at limit 2.
\<close>

theorem rank_duplicate_item_id_counterexample:
  "map item_id (rank_recommendations duplicate_candidates example_profile 2) = [''1'', ''1'']
   \<and> \<not> distinct (map item_id (rank_recommendations duplicate_candidates example_profile 2))"
  by (simp add: rank_recommendations_def py_sorted_desc_def duplicate_candidates_def)

text \<open>
  The theorem at limit 3 on the example database (three courses, two articles): one
  candidate of each type is requested and the result has two entries, although the
  second course scores above the news item.
\<close>

theorem get_recommendations_halves_witness:
  "get_recommendations example_cache example_db ''42'' example_prefs 3 = Inr [cand_c1, cand_n1]
   \<and> recommend_courses example_db example_profile example_prefs (3 div 2) = Inr [cand_c1]
   \<and> recommend_news example_db example_profile (3 div 2) = [cand_n1]
   \<and> int (length [cand_c1, cand_n1]) \<le> 2 * (3 div 2)
   \<and> int (length [cand_c1, cand_n1]) < 3"
proof -
  have nn: "(0::int) \<le> 3" by simp
  from get_recommendations_halves[OF nn example_limit_3] example_limit_3
  show ?thesis
    by (simp add: example_recommend_courses example_recommend_news py_slice_to_def)
qed

text \<open>
  Claim C10 as stated fails at the odd limit -1: the slice \<^verbatim>\<open>[:-1]\<close> requests two of
  the three courses, the result is empty, and its length 0 is neither at most
  2 * (-1 // 2) = -2 nor below -1.
\<close>

theorem get_recommendations_negative_limit_counterexample:
  "get_recommendations example_cache example_db ''42'' example_prefs (- 1) = Inr []
   \<and> \<not> int (length ([] :: candidate list)) \<le> 2 * ((- 1) div 2)
   \<and> odd (- 1 :: int) \<and> \<not> int (length ([] :: candidate list)) < - 1
   \<and> recommend_courses example_db example_profile example_prefs ((- 1) div 2)
       = Inr [cand_c1, cand_c2]"
  by (subst example_cache_shape, subst example_get_recommendations)
    (simp add: py_slice_to_def rank_recommendations_def py_sorted_desc_def cand_fields
      example_recommend_courses)

text \<open>
  The theorem at four rows of distinct categories with the counts 2, 5, 2, 1: bonds
  first, then stocks before funds (equal counts, stocks seen first).
\<close>

theorem get_preferred_categories_rows_witness:
  "distinct (map l_category example_learning)
   \<and> get_preferred_categories example_learning = [''bonds'', ''stocks'', ''funds'']
   \<and> distinct (get_preferred_categories example_learning)
   \<and> length (get_preferred_categories example_learning) = 3
   \<and> map_sum id preferred_categories
        (get_user_profile example_cache (example_db\<lparr>db_learning := example_learning\<rparr>) ''42'')
       = Inr (Some [''bonds'', ''stocks'', ''funds''])"
proof -
  have d: "distinct (map l_category example_learning)"
    by (simp add: example_learning_def)
  have len: "length example_learning = 4" by (simp add: example_learning_def)
  have miss: "get_profile example_cache (''user_profile:'' @ ''42'') = Inr None"
    by (simp add: example_cache_def)
  obtain p where p: "get_user_profile example_cache (example_db\<lparr>db_learning := example_learning\<rparr>)
                       ''42'' = Inr p"
    by (simp add: get_user_profile_def example_cache_def)
  note q = get_preferred_categories_rows[of example_learning]
  from q d have a1: "distinct (get_preferred_categories example_learning)"
    by blast
  from q have "length (get_preferred_categories example_learning)
                 = min 3 (length example_learning)"
    by blast
  with len have a2: "length (get_preferred_categories example_learning) = 3"
    by simp
  note a = a1 a2
  from get_preferred_categories_rows[of "db_learning (example_db\<lparr>db_learning := example_learning\<rparr>)"]
    miss p
  have "preferred_categories p
          = Some (get_preferred_categories (db_learning (example_db\<lparr>db_learning := example_learning\<rparr>)))"
    by blast
  with p d a show ?thesis by (simp add: example_learning_sorted)
qed

text \<open>
  Claim C9 as stated fails: with the completions of bonds split over two levels (2 and
  2) beside stocks with 3, bonds is listed twice and after stocks, although its total 4
  is above 3.
\<close>

theorem preferred_categories_split_counterexample:
  "get_preferred_categories split_learning = [''stocks'', ''bonds'', ''bonds'']
   \<and> \<not> distinct (get_preferred_categories split_learning)
   \<and> sum_list (map completed_courses (filter (\<lambda>r. l_category r = ''bonds'') split_learning)) = 4
   \<and> sum_list (map completed_courses (filter (\<lambda>r. l_category r = ''stocks'') split_learning)) = 3"
  by (simp add: get_preferred_categories_def split_learning_def py_sorted_desc_def
      py_slice_to_def)


end
